theory Spec2Isabelle
  imports Complex_Main
begin

section \<open>JavaScript numbers\<close>

text \<open>
  The component computes with JavaScript numbers. They are embedded as exact rationals
  extended by the three special values the arithmetic of the export can produce:
  \<open>Infinity\<close>, \<open>-Infinity\<close> and \<open>NaN\<close>. Finite arithmetic is exact (the rounding
  error of binary doubles is not modelled, and the literals \<open>2.54\<close> and \<open>0.04\<close> stand
  for the rationals \<open>254/100\<close> and \<open>4/100\<close>); zero is unsigned, which is what the
  export needs, since its divisors are the constants \<open>2.54\<close> and \<open>2\<close> and the
  non-negative intrinsic sizes of an image.
\<close>

datatype jsnum = Num rat | PosInf | NegInf | NaN

text \<open>\<open>Math.round\<close>: the nearest integer, a tie going towards \<open>+Infinity\<close>.\<close>

definition math_round :: "rat \<Rightarrow> rat" where
  "math_round x = of_int \<lfloor>x + 1 / 2\<rfloor>"

fun js_round :: "jsnum \<Rightarrow> jsnum" where
  "js_round (Num x) = Num (math_round x)"
| "js_round PosInf = PosInf"
| "js_round NegInf = NegInf"
| "js_round NaN = NaN"

text \<open>The operator \<open>*\<close>: \<open>Infinity * 0\<close> is \<open>NaN\<close>, otherwise the signs multiply.\<close>

fun js_mul :: "jsnum \<Rightarrow> jsnum \<Rightarrow> jsnum" where
  "js_mul NaN y = NaN"
| "js_mul x NaN = NaN"
| "js_mul (Num a) (Num b) = Num (a * b)"
| "js_mul (Num a) PosInf = (if a = 0 then NaN else if 0 < a then PosInf else NegInf)"
| "js_mul (Num a) NegInf = (if a = 0 then NaN else if 0 < a then NegInf else PosInf)"
| "js_mul PosInf (Num b) = (if b = 0 then NaN else if 0 < b then PosInf else NegInf)"
| "js_mul NegInf (Num b) = (if b = 0 then NaN else if 0 < b then NegInf else PosInf)"
| "js_mul PosInf PosInf = PosInf"
| "js_mul PosInf NegInf = NegInf"
| "js_mul NegInf PosInf = NegInf"
| "js_mul NegInf NegInf = PosInf"

text \<open>
  The operator \<open>/\<close>: a finite non-zero number over zero is an infinity of its sign,
  \<open>0 / 0\<close> and \<open>Infinity / Infinity\<close> are \<open>NaN\<close>, a finite number over an infinity
  is \<open>0\<close>.
\<close>

fun js_div :: "jsnum \<Rightarrow> jsnum \<Rightarrow> jsnum" where
  "js_div NaN y = NaN"
| "js_div x NaN = NaN"
| "js_div (Num a) (Num b) =
     (if b = 0 then (if a = 0 then NaN else if 0 < a then PosInf else NegInf)
      else Num (a / b))"
| "js_div (Num a) PosInf = Num 0"
| "js_div (Num a) NegInf = Num 0"
| "js_div PosInf (Num b) = (if 0 \<le> b then PosInf else NegInf)"
| "js_div NegInf (Num b) = (if 0 \<le> b then NegInf else PosInf)"
| "js_div PosInf PosInf = NaN"
| "js_div PosInf NegInf = NaN"
| "js_div NegInf PosInf = NaN"
| "js_div NegInf NegInf = NaN"

text \<open>The operator \<open>-\<close>: the difference of two equal infinities is \<open>NaN\<close>.\<close>

fun js_sub :: "jsnum \<Rightarrow> jsnum \<Rightarrow> jsnum" where
  "js_sub NaN y = NaN"
| "js_sub x NaN = NaN"
| "js_sub (Num a) (Num b) = Num (a - b)"
| "js_sub (Num a) PosInf = NegInf"
| "js_sub (Num a) NegInf = PosInf"
| "js_sub PosInf (Num b) = PosInf"
| "js_sub NegInf (Num b) = NegInf"
| "js_sub PosInf PosInf = NaN"
| "js_sub PosInf NegInf = PosInf"
| "js_sub NegInf PosInf = NegInf"
| "js_sub NegInf NegInf = NaN"

text \<open>\<open>Math.min\<close> of two arguments: \<open>NaN\<close> if either is, else the lesser.\<close>

fun js_min :: "jsnum \<Rightarrow> jsnum \<Rightarrow> jsnum" where
  "js_min NaN y = NaN"
| "js_min x NaN = NaN"
| "js_min NegInf y = NegInf"
| "js_min x NegInf = NegInf"
| "js_min PosInf y = y"
| "js_min x PosInf = x"
| "js_min (Num a) (Num b) = Num (min a b)"

text \<open>A number that is neither \<open>NaN\<close> nor an infinity.\<close>

fun is_finite :: "jsnum \<Rightarrow> bool" where
  "is_finite (Num x) = True"
| "is_finite PosInf = False"
| "is_finite NegInf = False"
| "is_finite NaN = False"

section \<open>The pixel size of the canvas\<close>

text \<open>
  Lines 70 to 72 of the component, the first computation of \<open>exportPNG\<close> after its
  guards:
  \<^verbatim>\<open>
  const pxPerCm = dpi / 2.54; // 1 inch = 2.54 cm
  const w = Math.round(widthCm * pxPerCm);
  const h = Math.round(heightCm * pxPerCm);
  \<close>
\<close>

definition computeCanvasPx :: "jsnum \<Rightarrow> jsnum \<Rightarrow> jsnum \<Rightarrow> jsnum \<times> jsnum" where
  "computeCanvasPx wCm hCm d =
     (let pxPerCm = js_div d (Num (254 / 100))
      in (js_round (js_mul wCm pxPerCm), js_round (js_mul hCm pxPerCm)))"

text \<open>The physical size of the label, constants of the component (lines 21 and 22).\<close>

definition widthCm :: jsnum where
  "widthCm = Num 5"

definition heightCm :: jsnum where
  "heightCm = Num 3"


section \<open>The geometry of the drawing\<close>

text \<open>
  Lines 102 to 111: the padding, the available box, the scale to fit and the offsets
  that centre the image, from the canvas size \<open>(w, h)\<close> and the intrinsic size of the
  decoded image (\<open>img.width\<close> and \<open>img.height\<close>, non-negative integers).
\<close>

record geometry =
  pad :: jsnum
  drawW :: jsnum
  drawH :: jsnum
  scale :: jsnum
  finalW :: jsnum
  finalH :: jsnum
  dx :: jsnum
  dy :: jsnum

definition compute_geometry :: "jsnum \<Rightarrow> jsnum \<Rightarrow> nat \<Rightarrow> nat \<Rightarrow> geometry" where
  "compute_geometry w h imgW imgH =
     (let pad = js_round (js_mul (js_min w h) (Num (4 / 100)));
          drawW = js_sub w (js_mul pad (Num 2));
          drawH = js_sub h (js_mul pad (Num 2));
          scale = js_min (js_div drawW (Num (of_nat imgW))) (js_div drawH (Num (of_nat imgH)));
          finalW = js_round (js_mul (Num (of_nat imgW)) scale);
          finalH = js_round (js_mul (Num (of_nat imgH)) scale);
          dx = js_round (js_div (js_sub w finalW) (Num 2));
          dy = js_round (js_div (js_sub h finalH) (Num 2))
      in \<lparr>pad = pad, drawW = drawW, drawH = drawH, scale = scale,
          finalW = finalW, finalH = finalH, dx = dx, dy = dy\<rparr>)"

section \<open>The browser and the component state\<close>

text \<open>
  A blob is its bytes and its MIME type. A decoded image is its intrinsic size and its
  picture, kept abstract. A canvas is its size and the drawing calls made on its 2D
  context, in order.
\<close>

record blob =
  blobData :: string
  blobType :: string

record image =
  imgWidth :: nat
  imgHeight :: nat
  imgPicture :: string

datatype draw_op =
    FillRect string jsnum jsnum jsnum jsnum
  | DrawImage image jsnum jsnum jsnum jsnum

record canvas =
  canvasWidth :: jsnum
  canvasHeight :: jsnum
  canvasOps :: "draw_op list"

text \<open>What the \<open>try\<close> block of \<open>exportPNG\<close> can throw, by the stage that throws.\<close>

datatype exn = DecodeFailure | NoContext | DrawFailure | EncodeFailure

text \<open>
  Every call that touches the component state, the console or a browser resource is
  recorded, in program order.
\<close>

datatype event =
    SetError string
  | SetDownloadUrl string
  | ConsoleError
  | CreateObjectURL string blob
  | RevokeObjectURL string
  | LoadImage string
  | CreateCanvas jsnum jsnum
  | ToBlob canvas

text \<open>
  The collaborators the component calls and does not define: the JsBarcode library
  (\<open>None\<close>: it throws), \<open>XMLSerializer\<close>, the image decoder (\<open>None\<close>: \<open>onerror\<close>
  fires), \<open>getContext("2d")\<close> (\<open>False\<close>: it returns \<open>null\<close>), \<open>drawImage\<close>
  (\<open>False\<close>: it throws) and \<open>canvas.toBlob\<close> (\<open>None\<close>: it throws or hands over
  \<open>null\<close>, on which \<open>URL.createObjectURL\<close> throws). Each is a function of its
  arguments. A decode or an encode that never calls back is not modelled.
\<close>

record barcode_options =
  optFormat :: string
  optDisplayValue :: bool
  optWidth :: nat
  optHeight :: nat
  optMargin :: nat
  optFontSize :: nat

record env =
  jsBarcode :: "string \<Rightarrow> barcode_options \<Rightarrow> string option"
  serializeToString :: "string \<Rightarrow> string"
  decodeImage :: "blob \<Rightarrow> image option"
  getContext2d :: "jsnum \<Rightarrow> jsnum \<Rightarrow> bool"
  drawImageOk :: "image \<Rightarrow> jsnum \<Rightarrow> jsnum \<Rightarrow> jsnum \<Rightarrow> jsnum \<Rightarrow> bool"
  toBlob :: "canvas \<Rightarrow> blob option"

text \<open>
  The state: the React state of the component (lines 12 to 18), the object URLs of the
  browser that are live (created and not revoked) with the blob each refers to, the
  number of object URLs created so far, and the record of calls. \<open>svgRef\<close> is
  \<open>svgRef.current\<close>: \<open>None\<close> for \<open>null\<close>, else the children of the container, each an
  \<open>svg\<close> element given by its inner markup (the component appends nothing else).
\<close>

record world =
  svgRef :: "string list option"
  valueText :: string
  format :: string
  dpi :: jsnum
  includeText :: bool
  downloadUrl :: string
  error :: string
  objectUrls :: "string \<rightharpoonup> blob"
  urlCount :: nat
  events :: "event list"

text \<open>
  The name of the \<open>n\<close>-th object URL. The browser hands out opaque \<open>blob:\<close> URLs that
  are never empty and never repeat; here the \<open>n\<close>-th is \<open>blob:\<close> followed by \<open>n\<close>
  marks.
\<close>

definition mk_url :: "nat \<Rightarrow> string" where
  "mk_url n = ''blob:'' @ replicate n (CHR ''#'')"

definition record_event :: "event \<Rightarrow> world \<Rightarrow> world" where
  "record_event ev w = w\<lparr>events := events w @ [ev]\<rparr>"

definition setError :: "string \<Rightarrow> world \<Rightarrow> world" where
  "setError msg w = record_event (SetError msg) (w\<lparr>error := msg\<rparr>)"

definition setDownloadUrl :: "string \<Rightarrow> world \<Rightarrow> world" where
  "setDownloadUrl u w = record_event (SetDownloadUrl u) (w\<lparr>downloadUrl := u\<rparr>)"

definition consoleError :: "world \<Rightarrow> world" where
  "consoleError w = record_event ConsoleError w"

definition createObjectURL :: "blob \<Rightarrow> world \<Rightarrow> string \<times> world" where
  "createObjectURL b w =
     (let u = mk_url (urlCount w)
      in (u, record_event (CreateObjectURL u b)
               (w\<lparr>objectUrls := (objectUrls w)(u \<mapsto> b), urlCount := Suc (urlCount w)\<rparr>)))"

definition revokeObjectURL :: "string \<Rightarrow> world \<Rightarrow> world" where
  "revokeObjectURL u w =
     record_event (RevokeObjectURL u) (w\<lparr>objectUrls := (objectUrls w)(u := None)\<rparr>)"

section \<open>renderBarcode\<close>

text \<open>
  Lines 30 to 53. The loop that empties the container removes the first child until
  none is left. \<open>querySelector("svg")\<close> on the container is its first \<open>svg\<close> element.
  The fresh \<open>svg\<close> element is appended before JsBarcode is called (lines 38 and 39), so
  when JsBarcode throws the element stays in the container; JsBarcode validates its input
  before it draws, so the element is then empty.
\<close>

fun remove_children :: "string list \<Rightarrow> string list" where
  "remove_children [] = []"
| "remove_children (c # cs) = remove_children cs"

fun querySelector_svg :: "string list \<Rightarrow> string option" where
  "querySelector_svg [] = None"
| "querySelector_svg (c # cs) = Some c"

datatype render_outcome = RenderSkipped | Rendered | RenderFailed

definition renderBarcode :: "env \<Rightarrow> world \<Rightarrow> render_outcome \<times> world" where
  "renderBarcode e w0 =
     (let w1 = setError [] w0
      in case svgRef w1 of
           None \<Rightarrow> (RenderSkipped, w1)
         | Some children \<Rightarrow>
             (let emptied = remove_children children;
                  text = (if valueText w1 = [] then '' '' else valueText w1);
                  opts = \<lparr>optFormat = format w1, optDisplayValue = includeText w1,
                          optWidth = 2, optHeight = 60, optMargin = 8, optFontSize = 14\<rparr>
              in case jsBarcode e text opts of
                   Some markup \<Rightarrow> (Rendered, w1\<lparr>svgRef := Some (emptied @ [markup])\<rparr>)
                 | None \<Rightarrow>
                     (RenderFailed,
                      setError ''Unable to render barcode with the current settings.''
                        (consoleError (w1\<lparr>svgRef := Some (emptied @ [[]])\<rparr>)))))"

section \<open>exportPNG\<close>

text \<open>
  The canvas once it is sized, filled with white and drawn on (lines 91 to 113). The
  fill covers \<open>canvas.width\<close> by \<open>canvas.height\<close>, which read back the \<open>w\<close> and \<open>h\<close>
  just assigned; what the browser makes of a size that is not an integer in range is
  left to the collaborators that receive the canvas.
\<close>

definition drawn_canvas :: "jsnum \<Rightarrow> jsnum \<Rightarrow> image \<Rightarrow> geometry \<Rightarrow> canvas" where
  "drawn_canvas w h img g =
     \<lparr>canvasWidth = w, canvasHeight = h,
      canvasOps = [FillRect ''#ffffff'' (Num 0) (Num 0) w h,
                   DrawImage img (dx g) (dy g) (finalW g) (finalH g)]\<rparr>"

text \<open>
  The \<open>try\<close> block, lines 81 to 121 without the final revocation: \<open>Inl\<close> is a throw,
  with the state at the throw; \<open>Inr\<close> is the normal end, with the URL of the PNG.
\<close>

definition export_try :: "env \<Rightarrow> string \<Rightarrow> jsnum \<Rightarrow> jsnum \<Rightarrow> world \<Rightarrow> exn \<times> world + string \<times> world" where
  "export_try e url w h w0 =
     (let w1 = record_event (LoadImage url) w0
      in case (case objectUrls w1 url of None \<Rightarrow> None | Some b \<Rightarrow> decodeImage e b) of
           None \<Rightarrow> Inl (DecodeFailure, w1)
         | Some img \<Rightarrow>
             (let w2 = record_event (CreateCanvas w h) w1
              in if \<not> getContext2d e w h then Inl (NoContext, w2)
                 else
                   (let g = compute_geometry w h (imgWidth img) (imgHeight img)
                    in if \<not> drawImageOk e img (dx g) (dy g) (finalW g) (finalH g)
                       then Inl (DrawFailure, w2)
                       else
                         (let cv = drawn_canvas w h img g;
                              w3 = record_event (ToBlob cv) w2
                          in case toBlob e cv of
                               None \<Rightarrow> Inl (EncodeFailure, w3)
                             | Some pngBlob \<Rightarrow>
                                 (let (pngUrl, w4) = createObjectURL pngBlob w3
                                  in Inr (pngUrl, setDownloadUrl pngUrl w4))))))"

datatype export_error = NoBarcode | SvgNotFound | ExportFailed exn

text \<open>The one message of the \<open>catch\<close> block (line 124).\<close>

definition export_failed_message :: string where
  "export_failed_message = ''Export failed. Try reducing DPI or changing the barcode format.''"

text \<open>
  Lines 55 to 127. The result says which way the function returned: \<open>Inl\<close> with the
  error it reported, or \<open>Inr\<close> with the URL of the PNG it made downloadable. A run is
  taken as a whole: nothing else runs at its two \<open>await\<close>s.
\<close>

definition exportPNG :: "env \<Rightarrow> world \<Rightarrow> (export_error + string) \<times> world" where
  "exportPNG e w0 =
     (let w1 = setError [] w0
      in case svgRef w1 of
           None \<Rightarrow> (Inl NoBarcode, setError ''No barcode to export.'' w1)
         | Some children \<Rightarrow>
             (case querySelector_svg children of
                None \<Rightarrow> (Inl SvgNotFound, setError ''SVG not found.'' w1)
              | Some svgEl \<Rightarrow>
                  (let (w, h) = computeCanvasPx widthCm heightCm (dpi w1);
                       svgString = serializeToString e svgEl;
                       svgBlob = \<lparr>blobData = svgString,
                                  blobType = ''image/svg+xml;charset=utf-8''\<rparr>;
                       (url, w2) = createObjectURL svgBlob w1
                   in case export_try e url w h w2 of
                        Inr (pngUrl, w3) \<Rightarrow> (Inr pngUrl, revokeObjectURL url w3)
                      | Inl (x, w3) \<Rightarrow>
                          (Inl (ExportFailed x),
                           revokeObjectURL url
                             (setError export_failed_message (consoleError w3))))))"

text \<open>
  The blob of the snapshot that \<open>exportPNG\<close> builds from the \<open>svg\<close> element it found
  (lines 75 to 77), named for the statements below.
\<close>

definition snapshot_blob :: "env \<Rightarrow> string \<Rightarrow> blob" where
  "snapshot_blob e svgEl =
     \<lparr>blobData = serializeToString e svgEl, blobType = ''image/svg+xml;charset=utf-8''\<rparr>"

text \<open>
  The object URLs still to come are not in use: the browser never hands out a URL that
  is live. It holds of the initial state and every operation keeps it.
\<close>

definition urls_fresh :: "world \<Rightarrow> bool" where
  "urls_fresh w = (\<forall>n. urlCount w \<le> n \<longrightarrow> mk_url n \<notin> dom (objectUrls w))"




section \<open>Example collaborators and states\<close>

text \<open>
  Collaborators on which everything succeeds, except that JsBarcode accepts the format
  CODE128 only; every snapshot decodes to an image of 200 by 100 pixels.
\<close>

definition demo_env :: env where
  "demo_env =
     \<lparr>jsBarcode = (\<lambda>text opts. if optFormat opts = ''CODE128'' then Some (''<rect/>'' @ text)
                                 else None),
      serializeToString = (\<lambda>markup. ''<svg>'' @ markup @ ''</svg>''),
      decodeImage = (\<lambda>b. Some \<lparr>imgWidth = 200, imgHeight = 100, imgPicture = blobData b\<rparr>),
      getContext2d = (\<lambda>w h. True),
      drawImageOk = (\<lambda>img x y w h. True),
      toBlob = (\<lambda>cv. Some \<lparr>blobData = ''PNG'', blobType = ''image/png''\<rparr>)\<rparr>"

text \<open>The same with a decoder that yields an image of no extent.\<close>

definition zero_image_env :: env where
  "zero_image_env =
     demo_env\<lparr>decodeImage := (\<lambda>b. Some \<lparr>imgWidth = 0, imgHeight = 0, imgPicture = blobData b\<rparr>)\<rparr>"

text \<open>The same with a decoder that yields an image of no width, 100 pixels high.\<close>

definition flat_image_env :: env where
  "flat_image_env =
     demo_env\<lparr>decodeImage := (\<lambda>b. Some \<lparr>imgWidth = 0, imgHeight = 100, imgPicture = blobData b\<rparr>)\<rparr>"

text \<open>The same with a decoder that always fails.\<close>

definition broken_image_env :: env where
  "broken_image_env = demo_env\<lparr>decodeImage := (\<lambda>b. None)\<rparr>"

text \<open>The component as mounted: an empty container, the initial React state.\<close>

definition initial_world :: world where
  "initial_world =
     \<lparr>svgRef = Some [], valueText = ''ABC-12345'', format = ''CODE128'', dpi = Num 300,
      includeText = True, downloadUrl = [], error = [],
      objectUrls = Map.empty, urlCount = 0, events = []\<rparr>"

text \<open>
  The component with a symbol rendered, after an earlier export succeeded: its PNG is
  live under the second object URL, which is the download URL, and a stale message is
  still in the error state.
\<close>

definition ready_world :: world where
  "ready_world =
     \<lparr>svgRef = Some [''<rect/>ABC-12345''], valueText = ''ABC-12345'', format = ''CODE128'',
      dpi = Num 300, includeText = True, downloadUrl = mk_url 1,
      error = ''Unable to render barcode with the current settings.'',
      objectUrls = [mk_url 1 \<mapsto> \<lparr>blobData = ''PNG'', blobType = ''image/png''\<rparr>],
      urlCount = 2, events = []\<rparr>"

text \<open>The component with the same symbol rendered and nothing exported yet.\<close>

definition rendered_world :: world where
  "rendered_world = initial_world\<lparr>svgRef := Some [''<rect/>ABC-12345'']\<rparr>"

text \<open>
  The component after a render that JsBarcode refused (the format EAN13 here): the
  container holds the fresh \<open>svg\<close> element, with nothing in it.
\<close>

definition unrendered_world :: world where
  "unrendered_world = snd (renderBarcode demo_env (initial_world\<lparr>format := ''EAN13''\<rparr>))"

section \<open>Evaluating the rounding\<close>

lemma math_round_numeral_div:
  "math_round (numeral a / numeral b) =
     of_int ((2 * numeral a + numeral b) div (2 * numeral b))"
proof -
  have "(numeral a :: rat) / numeral b + 1 / 2 =
          of_int (2 * numeral a + numeral b) / of_int (2 * numeral b)"
    by (simp add: field_simps)
  then show ?thesis
    unfolding math_round_def by (simp only: floor_divide_of_int_eq)
qed

lemma math_round_of_int [simp]: "math_round (of_int i) = of_int i"
proof -
  have "\<lfloor>(of_int i :: rat) + 1 / 2\<rfloor> = i"
    by (rule floor_unique) simp_all
  then show ?thesis
    by (simp add: math_round_def)
qed

lemma math_round_zero [simp]: "math_round 0 = 0"
  using math_round_of_int [of 0] by simp

lemma math_round_numeral [simp]: "math_round (numeral k) = numeral k"
  using math_round_of_int [of "numeral k"] by simp

lemma math_round_of_nat [simp]: "math_round (of_nat n) = of_nat n"
  using math_round_of_int [of "int n"] by simp






section \<open>The canvas size\<close>



section \<open>The geometry on a finite canvas\<close>













section \<open>The paths of exportPNG\<close>

lemmas world_ops =
  setError_def setDownloadUrl_def consoleError_def createObjectURL_def revokeObjectURL_def
  record_event_def

lemmas example_defs =
  demo_env_def zero_image_env_def flat_image_env_def broken_image_env_def initial_world_def
  ready_world_def
  rendered_world_def unrendered_world_def

lemmas run_defs =
  exportPNG_def renderBarcode_def export_try_def drawn_canvas_def snapshot_blob_def
  computeCanvasPx_def compute_geometry_def widthCm_def heightCm_def Let_def
  math_round_numeral_div

lemma mk_url_inj [simp]: "mk_url m = mk_url n \<longleftrightarrow> m = n"
proof
  assume "mk_url m = mk_url n"
  then have "length (mk_url m) = length (mk_url n)" by simp
  then show "m = n" by (simp add: mk_url_def)
qed simp

lemma mk_url_nonempty [simp]: "mk_url n \<noteq> []"
  by (simp add: mk_url_def)

lemma exportPNG_cases:
  obtains (no_ref) "svgRef w = None"
  | (no_svg) "svgRef w = Some []"
  | (svg) svgEl rest where "svgRef w = Some (svgEl # rest)"
  by (cases "svgRef w"; cases "the (svgRef w)") auto

lemma exportPNG_no_ref:
  "svgRef w = None \<Longrightarrow>
   exportPNG e w =
     (Inl NoBarcode,
      w\<lparr>error := ''No barcode to export.'',
        events := events w @ [SetError [], SetError ''No barcode to export.'']\<rparr>)"
  by (simp add: exportPNG_def world_ops)

lemma exportPNG_no_svg:
  "svgRef w = Some [] \<Longrightarrow>
   exportPNG e w =
     (Inl SvgNotFound,
      w\<lparr>error := ''SVG not found.'',
        events := events w @ [SetError [], SetError ''SVG not found.'']\<rparr>)"
  by (simp add: exportPNG_def world_ops)

lemma exportPNG_svg:
  assumes "svgRef w = Some (svgEl # rest)"
  shows "exportPNG e w =
     (let cw = fst (computeCanvasPx widthCm heightCm (dpi w));
          ch = snd (computeCanvasPx widthCm heightCm (dpi w));
          url = mk_url (urlCount w);
          w2 = snd (createObjectURL (snapshot_blob e svgEl) (setError [] w))
      in case export_try e url cw ch w2 of
           Inr (pngUrl, w3) \<Rightarrow> (Inr pngUrl, revokeObjectURL url w3)
         | Inl (x, w3) \<Rightarrow>
             (Inl (ExportFailed x),
              revokeObjectURL url (setError export_failed_message (consoleError w3))))"
  using assms
  by (simp add: exportPNG_def Let_def snapshot_blob_def world_ops split: prod.splits)


lemma export_try_return:
  assumes "export_try e url cw ch w = Inr (u, w')"
  shows "\<exists>img png. u = mk_url (urlCount w) \<and> downloadUrl w' = u \<and>
           objectUrls w' = (objectUrls w)(u \<mapsto> png) \<and>
           urlCount w' = Suc (urlCount w) \<and> error w' = error w \<and>
           events w' = events w @
             [LoadImage url, CreateCanvas cw ch,
              ToBlob (drawn_canvas cw ch img
                        (compute_geometry cw ch (imgWidth img) (imgHeight img))),
              CreateObjectURL u png, SetDownloadUrl u]"
  using assms
  by (auto simp: export_try_def Let_def world_ops split: option.splits if_splits)


lemma exportPNG_success:
  assumes "fst (exportPNG e w) = Inr u"
  shows "\<exists>svgEl rest img png.
           svgRef w = Some (svgEl # rest)
         \<and> u = mk_url (Suc (urlCount w))
         \<and> downloadUrl (snd (exportPNG e w)) = u
         \<and> error (snd (exportPNG e w)) = []
         \<and> urlCount (snd (exportPNG e w)) = Suc (Suc (urlCount w))
         \<and> objectUrls (snd (exportPNG e w)) =
              ((objectUrls w)(mk_url (urlCount w) \<mapsto> snapshot_blob e svgEl, u \<mapsto> png))
                (mk_url (urlCount w) := None)
         \<and> events (snd (exportPNG e w)) =
              events w @
                [SetError [], CreateObjectURL (mk_url (urlCount w)) (snapshot_blob e svgEl),
                 LoadImage (mk_url (urlCount w)),
                 CreateCanvas (fst (computeCanvasPx widthCm heightCm (dpi w)))
                              (snd (computeCanvasPx widthCm heightCm (dpi w))),
                 ToBlob (drawn_canvas (fst (computeCanvasPx widthCm heightCm (dpi w)))
                           (snd (computeCanvasPx widthCm heightCm (dpi w))) img
                           (compute_geometry (fst (computeCanvasPx widthCm heightCm (dpi w)))
                              (snd (computeCanvasPx widthCm heightCm (dpi w)))
                              (imgWidth img) (imgHeight img))),
                 CreateObjectURL u png, SetDownloadUrl u,
                 RevokeObjectURL (mk_url (urlCount w))]"
proof (cases w rule: exportPNG_cases)
  case no_ref
  with assms show ?thesis by (simp add: exportPNG_no_ref)
next
  case no_svg
  with assms show ?thesis by (simp add: exportPNG_no_svg)
next
  case (svg svgEl rest)
  define w2 where "w2 = snd (createObjectURL (snapshot_blob e svgEl) (setError [] w))"
  define cw where "cw = fst (computeCanvasPx widthCm heightCm (dpi w))"
  define ch where "ch = snd (computeCanvasPx widthCm heightCm (dpi w))"
  have ex: "exportPNG e w =
      (case export_try e (mk_url (urlCount w)) cw ch w2 of
           Inr (pngUrl, w3) \<Rightarrow> (Inr pngUrl, revokeObjectURL (mk_url (urlCount w)) w3)
         | Inl (x, w3) \<Rightarrow>
             (Inl (ExportFailed x),
              revokeObjectURL (mk_url (urlCount w))
                (setError export_failed_message (consoleError w3))))"
    by (simp add: exportPNG_svg [OF svg] Let_def w2_def cw_def ch_def)
  with assms obtain w3 where t: "export_try e (mk_url (urlCount w)) cw ch w2 = Inr (u, w3)"
    by (auto split: sum.splits prod.splits)
  have w2: "downloadUrl w2 = downloadUrl w" "error w2 = []" "urlCount w2 = Suc (urlCount w)"
    "objectUrls w2 = (objectUrls w)(mk_url (urlCount w) \<mapsto> snapshot_blob e svgEl)"
    "events w2 =
       events w @ [SetError [], CreateObjectURL (mk_url (urlCount w)) (snapshot_blob e svgEl)]"
    by (simp_all add: w2_def world_ops Let_def)
  from export_try_return [OF t] obtain img png where w3:
    "u = mk_url (urlCount w2)" "downloadUrl w3 = u"
    "objectUrls w3 = (objectUrls w2)(u \<mapsto> png)"
    "urlCount w3 = Suc (urlCount w2)" "error w3 = error w2"
    "events w3 = events w2 @
       [LoadImage (mk_url (urlCount w)), CreateCanvas cw ch,
        ToBlob (drawn_canvas cw ch img (compute_geometry cw ch (imgWidth img) (imgHeight img))),
        CreateObjectURL u png, SetDownloadUrl u]"
    by blast
  have res: "snd (exportPNG e w) = revokeObjectURL (mk_url (urlCount w)) w3"
    by (simp add: ex t)
  show ?thesis
    apply (rule exI [of _ svgEl], rule exI [of _ rest], rule exI [of _ img], rule exI [of _ png])
    using w3 w2 by (simp add: svg res world_ops cw_def ch_def)
qed

lemma exportPNG_succeeds:
  assumes "svgRef w = Some (svgEl # rest)"
    and "decodeImage e (snapshot_blob e svgEl) = Some img"
    and "computeCanvasPx widthCm heightCm (dpi w) = (cw, ch)"
    and "getContext2d e cw ch"
    and "drawImageOk e img (dx (compute_geometry cw ch (imgWidth img) (imgHeight img)))
           (dy (compute_geometry cw ch (imgWidth img) (imgHeight img)))
           (finalW (compute_geometry cw ch (imgWidth img) (imgHeight img)))
           (finalH (compute_geometry cw ch (imgWidth img) (imgHeight img)))"
    and "toBlob e (drawn_canvas cw ch img (compute_geometry cw ch (imgWidth img) (imgHeight img)))
           = Some png"
  shows "fst (exportPNG e w) = Inr (mk_url (Suc (urlCount w)))"
    and "error (snd (exportPNG e w)) = []"
    and "events (snd (exportPNG e w)) =
           events w @
             [SetError [], CreateObjectURL (mk_url (urlCount w)) (snapshot_blob e svgEl),
              LoadImage (mk_url (urlCount w)), CreateCanvas cw ch,
              ToBlob (drawn_canvas cw ch img
                        (compute_geometry cw ch (imgWidth img) (imgHeight img))),
              CreateObjectURL (mk_url (Suc (urlCount w))) png,
              SetDownloadUrl (mk_url (Suc (urlCount w))),
              RevokeObjectURL (mk_url (urlCount w))]"
  using assms
  by (simp_all add: exportPNG_svg export_try_def Let_def world_ops)








lemma urls_fresh_initial: "urls_fresh initial_world"
  by (simp add: urls_fresh_def initial_world_def)

lemma urls_fresh_renderBarcode: "urls_fresh w \<Longrightarrow> urls_fresh (snd (renderBarcode e w))"
  by (simp add: urls_fresh_def renderBarcode_def Let_def world_ops split: option.splits)

lemma urls_fresh_exportPNG: "urls_fresh w \<Longrightarrow> urls_fresh (snd (exportPNG e w))"
proof (cases w rule: exportPNG_cases)
  case no_ref
  assume "urls_fresh w"
  with no_ref show ?thesis by (simp add: exportPNG_no_ref urls_fresh_def)
next
  case no_svg
  assume "urls_fresh w"
  with no_svg show ?thesis by (simp add: exportPNG_no_svg urls_fresh_def)
next
  case (svg svgEl rest)
  assume "urls_fresh w"
  then show ?thesis
    by (auto simp: urls_fresh_def exportPNG_svg [OF svg] export_try_def Let_def world_ops
        split: option.splits if_splits)
qed

lemma ready_world_fresh: "urls_fresh ready_world"
  by (auto simp: urls_fresh_def ready_world_def)

lemma ready_world_live: "downloadUrl ready_world \<in> dom (objectUrls ready_world)"
  by (simp add: ready_world_def)

lemma export_ready_world: "fst (exportPNG demo_env ready_world) = Inr (mk_url 3)"
  by (simp add: run_defs example_defs world_ops eval_nat_numeral)


section \<open>The download handle across exports\<close>

text \<open>
  C3, as the code has it. Whenever an export succeeds while a previous downloadable handle
  is live, the new handle replaces the previous one in the download slot of the component,
  and the previous handle is not revoked: it stays live in the browser next to the new
  one. The only handle the export revokes is the temporary handle of its own snapshot.
\<close>

theorem successful_export_keeps_previous_handle:
  assumes "fst (exportPNG e w) = Inr u" and "urls_fresh w"
    and "downloadUrl w \<in> dom (objectUrls w)"
  shows "downloadUrl (snd (exportPNG e w)) = u
       \<and> u \<noteq> downloadUrl w
       \<and> downloadUrl w \<in> dom (objectUrls (snd (exportPNG e w)))
       \<and> dom (objectUrls (snd (exportPNG e w))) = insert u (dom (objectUrls w))
       \<and> mk_url (urlCount w) \<notin> dom (objectUrls (snd (exportPNG e w)))
       \<and> (\<exists>b cw ch cv png.
             events (snd (exportPNG e w)) =
               events w @
                 [SetError [], CreateObjectURL (mk_url (urlCount w)) b,
                  LoadImage (mk_url (urlCount w)), CreateCanvas cw ch, ToBlob cv,
                  CreateObjectURL u png, SetDownloadUrl u,
                  RevokeObjectURL (mk_url (urlCount w))])"
proof -
  from exportPNG_success [OF assms(1)] obtain svgEl img png where s:
    "u = mk_url (Suc (urlCount w))"
    "downloadUrl (snd (exportPNG e w)) = u"
    "objectUrls (snd (exportPNG e w)) =
       ((objectUrls w)(mk_url (urlCount w) \<mapsto> snapshot_blob e svgEl, u \<mapsto> png))
         (mk_url (urlCount w) := None)"
    "events (snd (exportPNG e w)) =
       events w @
         [SetError [], CreateObjectURL (mk_url (urlCount w)) (snapshot_blob e svgEl),
          LoadImage (mk_url (urlCount w)),
          CreateCanvas (fst (computeCanvasPx widthCm heightCm (dpi w)))
                       (snd (computeCanvasPx widthCm heightCm (dpi w))),
          ToBlob (drawn_canvas (fst (computeCanvasPx widthCm heightCm (dpi w)))
                    (snd (computeCanvasPx widthCm heightCm (dpi w))) img
                    (compute_geometry (fst (computeCanvasPx widthCm heightCm (dpi w)))
                       (snd (computeCanvasPx widthCm heightCm (dpi w)))
                       (imgWidth img) (imgHeight img))),
          CreateObjectURL u png, SetDownloadUrl u,
          RevokeObjectURL (mk_url (urlCount w))]"
    by blast
  from assms(2) have f: "mk_url (urlCount w) \<notin> dom (objectUrls w)" "u \<notin> dom (objectUrls w)"
    by (simp_all add: urls_fresh_def s(1))
  with assms(3) have ne: "u \<noteq> downloadUrl w" "mk_url (urlCount w) \<noteq> downloadUrl w"
    by auto
  have d: "dom (objectUrls (snd (exportPNG e w))) = insert u (dom (objectUrls w))"
    using f by (auto simp: s(3) s(1))
  show ?thesis
    using ne d f assms(3) by (auto simp: s(2) s(4) s(1))
qed

theorem successful_export_keeps_previous_handle_witness:
  "fst (exportPNG demo_env ready_world) = Inr (mk_url 3)
   \<and> urls_fresh ready_world
   \<and> downloadUrl ready_world \<in> dom (objectUrls ready_world)
   \<and> downloadUrl (snd (exportPNG demo_env ready_world)) = mk_url 3
   \<and> downloadUrl ready_world \<in> dom (objectUrls (snd (exportPNG demo_env ready_world)))
   \<and> dom (objectUrls (snd (exportPNG demo_env ready_world))) =
       insert (mk_url 3) (dom (objectUrls ready_world))"
  using successful_export_keeps_previous_handle
          [OF export_ready_world ready_world_fresh ready_world_live]
        export_ready_world ready_world_fresh ready_world_live
  by blast

text \<open>
  C3 as stated fails. The state holds the PNG of an earlier export under \<open>mk_url 1\<close>;
  a second export succeeds and makes \<open>mk_url 3\<close> downloadable; \<open>mk_url 1\<close> is never
  revoked and both handles are live afterwards.
\<close>

theorem previous_handle_revoked_counterexample:
  "downloadUrl ready_world = mk_url 1
   \<and> mk_url 1 \<in> dom (objectUrls ready_world)
   \<and> fst (exportPNG demo_env ready_world) = Inr (mk_url 3)
   \<and> downloadUrl (snd (exportPNG demo_env ready_world)) = mk_url 3
   \<and> mk_url 1 \<in> dom (objectUrls (snd (exportPNG demo_env ready_world)))
   \<and> mk_url 3 \<in> dom (objectUrls (snd (exportPNG demo_env ready_world)))
   \<and> RevokeObjectURL (mk_url 1) \<notin> set (events (snd (exportPNG demo_env ready_world)))"
  by (simp add: run_defs example_defs world_ops eval_nat_numeral)



section \<open>The guards of exportPNG\<close>

text \<open>
  C7, as the code has it. If \<open>svgRef.current\<close> is \<open>null\<close>, or the container holds no
  \<open>svg\<close> element, the export reports \<open>No barcode to export.\<close> or \<open>SVG not found.\<close>,
  neither of which is the message of a failed rasterization, and returns having created
  nothing: no blob, no object URL, no canvas, and the download URL is the one from
  before. (An \<open>svg\<close> element that is there and holds no symbol passes both guards.)
\<close>

theorem absent_surface_reported:
  assumes "svgRef w = None \<or> svgRef w = Some []"
  shows "(fst (exportPNG e w) = Inl NoBarcode \<or> fst (exportPNG e w) = Inl SvgNotFound)
       \<and> (error (snd (exportPNG e w)) = ''No barcode to export.''
            \<or> error (snd (exportPNG e w)) = ''SVG not found.'')
       \<and> error (snd (exportPNG e w)) \<noteq> export_failed_message
       \<and> objectUrls (snd (exportPNG e w)) = objectUrls w
       \<and> urlCount (snd (exportPNG e w)) = urlCount w
       \<and> downloadUrl (snd (exportPNG e w)) = downloadUrl w
       \<and> events (snd (exportPNG e w)) =
            events w @ [SetError [], SetError (error (snd (exportPNG e w)))]"
  using assms
  by (auto simp: exportPNG_no_ref exportPNG_no_svg export_failed_message_def)

theorem absent_surface_reported_witness:
  "svgRef initial_world = Some []
   \<and> fst (exportPNG demo_env initial_world) = Inl SvgNotFound
   \<and> error (snd (exportPNG demo_env initial_world)) = ''SVG not found.''
   \<and> urlCount (snd (exportPNG demo_env initial_world)) = 0
   \<and> events (snd (exportPNG demo_env initial_world)) = [SetError [], SetError ''SVG not found.'']"
proof -
  have h: "svgRef initial_world = None \<or> svgRef initial_world = Some []"
    by (simp add: initial_world_def)
  from absent_surface_reported [OF h, of demo_env] show ?thesis
    by (simp add: initial_world_def exportPNG_no_svg)
qed

text \<open>
  C7 as stated fails on a drawing surface that is empty. JsBarcode refuses the data, so
  \<open>renderBarcode\<close> leaves the fresh \<open>svg\<close> element in the container with nothing in
  it; an export then passes both guards, creates the snapshot handle and the PNG handle,
  and reports no error at all.
\<close>

theorem empty_surface_reported_counterexample:
  "fst (renderBarcode demo_env (initial_world\<lparr>format := ''EAN13''\<rparr>)) = RenderFailed
   \<and> svgRef unrendered_world = Some [[]]
   \<and> fst (exportPNG demo_env unrendered_world) = Inr (mk_url 1)
   \<and> error (snd (exportPNG demo_env unrendered_world)) = []
   \<and> urlCount (snd (exportPNG demo_env unrendered_world)) = 2
   \<and> mk_url 1 \<in> dom (objectUrls (snd (exportPNG demo_env unrendered_world)))
   \<and> CreateObjectURL (mk_url 0)
        \<lparr>blobData = ''<svg></svg>'', blobType = ''image/svg+xml;charset=utf-8''\<rparr>
        \<in> set (events (snd (exportPNG demo_env unrendered_world)))"
  by (simp add: run_defs example_defs world_ops eval_nat_numeral)

section \<open>An image of no extent\<close>

lemma geometry_zero_both:
  assumes "0 < a - 2 * math_round (min a b * (4 / 100))"
    and "0 < b - 2 * math_round (min a b * (4 / 100))"
  shows "compute_geometry (Num a) (Num b) 0 0 =
           \<lparr>pad = Num (math_round (min a b * (4 / 100))),
            drawW = Num (a - 2 * math_round (min a b * (4 / 100))),
            drawH = Num (b - 2 * math_round (min a b * (4 / 100))),
            scale = PosInf, finalW = NaN, finalH = NaN, dx = NaN, dy = NaN\<rparr>"
  using assms by (simp add: compute_geometry_def Let_def)

lemma geometry_zero_width:
  assumes "0 < a - 2 * math_round (min a b * (4 / 100))" and "0 < ih"
  shows "is_finite (scale (compute_geometry (Num a) (Num b) 0 ih))"
    and "finalW (compute_geometry (Num a) (Num b) 0 ih) = Num 0"
    and "is_finite (finalH (compute_geometry (Num a) (Num b) 0 ih))"
    and "is_finite (dx (compute_geometry (Num a) (Num b) 0 ih))"
    and "is_finite (dy (compute_geometry (Num a) (Num b) 0 ih))"
  using assms by (simp_all add: compute_geometry_def Let_def)

lemma geometry_zero_height:
  assumes "0 < b - 2 * math_round (min a b * (4 / 100))" and "0 < iw"
  shows "is_finite (scale (compute_geometry (Num a) (Num b) iw 0))"
    and "is_finite (finalW (compute_geometry (Num a) (Num b) iw 0))"
    and "finalH (compute_geometry (Num a) (Num b) iw 0) = Num 0"
    and "is_finite (dx (compute_geometry (Num a) (Num b) iw 0))"
    and "is_finite (dy (compute_geometry (Num a) (Num b) iw 0))"
  using assms by (simp_all add: compute_geometry_def Let_def)

text \<open>
  C2, as the code has it. If the decoded image has zero width or zero height, nothing
  detects it: on a finite canvas with a positive available area the geometry is computed
  as for any image and handed to \<open>drawImage\<close>, and unless the drawing or the encoding
  throws the export succeeds and reports no error. When exactly one of the two sizes is
  zero, the scale, the drawn size and the offsets are all finite (the side that is zero
  is drawn with size 0). When both are zero, the scale is \<open>Infinity\<close> and the drawn size
  and the offsets are \<open>NaN\<close>, and these are the arguments of \<open>drawImage\<close>.
\<close>

theorem zero_sized_image_not_detected:
  assumes "svgRef w = Some (svgEl # rest)"
    and "decodeImage e (snapshot_blob e svgEl) = Some img"
    and "imgWidth img = 0 \<or> imgHeight img = 0"
    and "computeCanvasPx widthCm heightCm (dpi w) = (Num a, Num b)"
    and "0 < a - 2 * math_round (min a b * (4 / 100))"
    and "0 < b - 2 * math_round (min a b * (4 / 100))"
    and "getContext2d e (Num a) (Num b)"
    and "drawImageOk e img
           (dx (compute_geometry (Num a) (Num b) (imgWidth img) (imgHeight img)))
           (dy (compute_geometry (Num a) (Num b) (imgWidth img) (imgHeight img)))
           (finalW (compute_geometry (Num a) (Num b) (imgWidth img) (imgHeight img)))
           (finalH (compute_geometry (Num a) (Num b) (imgWidth img) (imgHeight img)))"
    and "toBlob e (drawn_canvas (Num a) (Num b) img
           (compute_geometry (Num a) (Num b) (imgWidth img) (imgHeight img))) = Some png"
  shows "fst (exportPNG e w) = Inr (mk_url (Suc (urlCount w)))
       \<and> error (snd (exportPNG e w)) = []
       \<and> ToBlob (drawn_canvas (Num a) (Num b) img
           (compute_geometry (Num a) (Num b) (imgWidth img) (imgHeight img)))
           \<in> set (events (snd (exportPNG e w)))
       \<and> (imgWidth img = 0 \<and> imgHeight img = 0 \<longrightarrow>
            scale (compute_geometry (Num a) (Num b) (imgWidth img) (imgHeight img)) = PosInf
          \<and> finalW (compute_geometry (Num a) (Num b) (imgWidth img) (imgHeight img)) = NaN
          \<and> finalH (compute_geometry (Num a) (Num b) (imgWidth img) (imgHeight img)) = NaN
          \<and> dx (compute_geometry (Num a) (Num b) (imgWidth img) (imgHeight img)) = NaN
          \<and> dy (compute_geometry (Num a) (Num b) (imgWidth img) (imgHeight img)) = NaN)
       \<and> (0 < imgWidth img \<or> 0 < imgHeight img \<longrightarrow>
            is_finite (scale (compute_geometry (Num a) (Num b) (imgWidth img) (imgHeight img)))
          \<and> is_finite (finalW (compute_geometry (Num a) (Num b) (imgWidth img) (imgHeight img)))
          \<and> is_finite (finalH (compute_geometry (Num a) (Num b) (imgWidth img) (imgHeight img)))
          \<and> is_finite (dx (compute_geometry (Num a) (Num b) (imgWidth img) (imgHeight img)))
          \<and> is_finite (dy (compute_geometry (Num a) (Num b) (imgWidth img) (imgHeight img))))"
proof -
  note run = exportPNG_succeeds [OF assms(1,2,4,7,8,9)]
  have both: "compute_geometry (Num a) (Num b) (imgWidth img) (imgHeight img) =
           \<lparr>pad = Num (math_round (min a b * (4 / 100))),
            drawW = Num (a - 2 * math_round (min a b * (4 / 100))),
            drawH = Num (b - 2 * math_round (min a b * (4 / 100))),
            scale = PosInf, finalW = NaN, finalH = NaN, dx = NaN, dy = NaN\<rparr>"
    if "imgWidth img = 0" "imgHeight img = 0"
    using that geometry_zero_both [OF assms(5,6)] by simp
  have one: "is_finite (scale (compute_geometry (Num a) (Num b) (imgWidth img) (imgHeight img)))
          \<and> is_finite (finalW (compute_geometry (Num a) (Num b) (imgWidth img) (imgHeight img)))
          \<and> is_finite (finalH (compute_geometry (Num a) (Num b) (imgWidth img) (imgHeight img)))
          \<and> is_finite (dx (compute_geometry (Num a) (Num b) (imgWidth img) (imgHeight img)))
          \<and> is_finite (dy (compute_geometry (Num a) (Num b) (imgWidth img) (imgHeight img)))"
    if "0 < imgWidth img \<or> 0 < imgHeight img"
  proof (cases "imgWidth img = 0")
    case True
    with that assms(3) have "0 < imgHeight img" by simp
    from geometry_zero_width [OF assms(5) this] True show ?thesis by simp
  next
    case False
    with assms(3) have "imgHeight img = 0" "0 < imgWidth img" by simp_all
    with geometry_zero_height [OF assms(6), of "imgWidth img"] show ?thesis by simp
  qed
  show ?thesis
    using run both one by simp
qed

theorem zero_sized_image_not_detected_witness:
  "fst (exportPNG zero_image_env rendered_world) = Inr (mk_url 1)
   \<and> error (snd (exportPNG zero_image_env rendered_world)) = []
   \<and> scale (compute_geometry (Num 591) (Num 354) 0 0) = PosInf
   \<and> finalW (compute_geometry (Num 591) (Num 354) 0 0) = NaN
   \<and> dx (compute_geometry (Num 591) (Num 354) 0 0) = NaN
   \<and> fst (exportPNG flat_image_env rendered_world) = Inr (mk_url 1)
   \<and> error (snd (exportPNG flat_image_env rendered_world)) = []
   \<and> is_finite (scale (compute_geometry (Num 591) (Num 354) 0 100))
   \<and> is_finite (finalW (compute_geometry (Num 591) (Num 354) 0 100))
   \<and> is_finite (dx (compute_geometry (Num 591) (Num 354) 0 100))"
proof -
  define svgEl where "svgEl = ''<rect/>ABC-12345''"
  define png where "png = \<lparr>blobData = ''PNG'', blobType = ''image/png''\<rparr>"
  define img0 where
    "img0 = \<lparr>imgWidth = 0, imgHeight = 0, imgPicture = ''<svg><rect/>ABC-12345</svg>''\<rparr>"
  define img1 where
    "img1 = \<lparr>imgWidth = 0, imgHeight = 100, imgPicture = ''<svg><rect/>ABC-12345</svg>''\<rparr>"
  have ref: "svgRef rendered_world = Some (svgEl # [])"
    by (simp add: example_defs svgEl_def)
  have px: "computeCanvasPx widthCm heightCm (dpi rendered_world) = (Num 591, Num 354)"
    by (simp add: run_defs example_defs)
  have avail: "(0::rat) < 591 - 2 * math_round (min 591 354 * (4 / 100))"
    "(0::rat) < 354 - 2 * math_round (min 591 354 * (4 / 100))"
    by (simp_all add: math_round_numeral_div)
  have dec0: "decodeImage zero_image_env (snapshot_blob zero_image_env svgEl) = Some img0"
    by (simp add: example_defs snapshot_blob_def svgEl_def img0_def)
  have z0: "imgWidth img0 = 0 \<or> imgHeight img0 = 0"
    by (simp add: img0_def)
  have ctx0: "getContext2d zero_image_env (Num 591) (Num 354)"
    by (simp add: example_defs)
  have draw0: "drawImageOk zero_image_env img0
      (dx (compute_geometry (Num 591) (Num 354) (imgWidth img0) (imgHeight img0)))
      (dy (compute_geometry (Num 591) (Num 354) (imgWidth img0) (imgHeight img0)))
      (finalW (compute_geometry (Num 591) (Num 354) (imgWidth img0) (imgHeight img0)))
      (finalH (compute_geometry (Num 591) (Num 354) (imgWidth img0) (imgHeight img0)))"
    by (simp add: example_defs)
  have enc0: "toBlob zero_image_env (drawn_canvas (Num 591) (Num 354) img0
      (compute_geometry (Num 591) (Num 354) (imgWidth img0) (imgHeight img0))) = Some png"
    by (simp add: example_defs png_def)
  have dec1: "decodeImage flat_image_env (snapshot_blob flat_image_env svgEl) = Some img1"
    by (simp add: example_defs snapshot_blob_def svgEl_def img1_def)
  have z1: "imgWidth img1 = 0 \<or> imgHeight img1 = 0"
    by (simp add: img1_def)
  have ctx1: "getContext2d flat_image_env (Num 591) (Num 354)"
    by (simp add: example_defs)
  have draw1: "drawImageOk flat_image_env img1
      (dx (compute_geometry (Num 591) (Num 354) (imgWidth img1) (imgHeight img1)))
      (dy (compute_geometry (Num 591) (Num 354) (imgWidth img1) (imgHeight img1)))
      (finalW (compute_geometry (Num 591) (Num 354) (imgWidth img1) (imgHeight img1)))
      (finalH (compute_geometry (Num 591) (Num 354) (imgWidth img1) (imgHeight img1)))"
    by (simp add: example_defs)
  have enc1: "toBlob flat_image_env (drawn_canvas (Num 591) (Num 354) img1
      (compute_geometry (Num 591) (Num 354) (imgWidth img1) (imgHeight img1))) = Some png"
    by (simp add: example_defs png_def)
  have u: "urlCount rendered_world = 0"
    by (simp add: example_defs)
  from zero_sized_image_not_detected [OF ref dec0 z0 px avail ctx0 draw0 enc0]
       zero_sized_image_not_detected [OF ref dec1 z1 px avail ctx1 draw1 enc1]
  show ?thesis
    by (simp add: u img0_def img1_def)
qed

text \<open>
  C2 as stated fails. The snapshot decodes to an image of 0 by 0 pixels; the export
  reports no error and makes a PNG downloadable, and the canvas it encodes was drawn on
  with \<open>drawImage (img, NaN, NaN, NaN, NaN)\<close>.
\<close>

theorem zero_sized_image_detected_counterexample:
  "fst (exportPNG zero_image_env rendered_world) = Inr (mk_url 1)
   \<and> error (snd (exportPNG zero_image_env rendered_world)) = []
   \<and> downloadUrl (snd (exportPNG zero_image_env rendered_world)) = mk_url 1
   \<and> scale (compute_geometry (Num 591) (Num 354) 0 0) = PosInf
   \<and> ToBlob
        \<lparr>canvasWidth = Num 591, canvasHeight = Num 354,
         canvasOps =
           [FillRect ''#ffffff'' (Num 0) (Num 0) (Num 591) (Num 354),
            DrawImage
              \<lparr>imgWidth = 0, imgHeight = 0, imgPicture = ''<svg><rect/>ABC-12345</svg>''\<rparr>
              NaN NaN NaN NaN]\<rparr>
        \<in> set (events (snd (exportPNG zero_image_env rendered_world)))"
  by (simp add: run_defs example_defs world_ops)

section \<open>Determinism of the export\<close>






section \<open>The error state\<close>



end
